theory Spec2Isabelle
  imports Main
begin

section \<open>JavaScript values\<close>

text \<open>
  The two components of \<^verbatim>\<open>src/docusaurus/src/components/VocabTable/index.js\<close> receive
  untyped JavaScript data. The values they can meet are modelled by one datatype: a
  property that is not there reads as \<open>JUndefined\<close>, an array is the list of its elements
  (dense, as array literals and parsed data are), an object is the list of its own
  properties in the order they were written. Numbers are the integral ones (an array's
  length); functions and symbols are not values of the model, so a property
  can never hold something callable.
\<close>

datatype jsval =
    JUndefined
  | JNull
  | JBool bool
  | JNum int
  | JStr string
  | JArr "jsval list"
  | JObj "(string \<times> jsval) list"

text \<open>The only exception the components can raise themselves.\<close>

datatype js_error = TypeError

text \<open>
  Reading an own property of an object. In an object literal a later binding of a key
  replaces an earlier one, so the list is searched from its end.
\<close>

definition own_property :: "(string \<times> jsval) list \<Rightarrow> string \<Rightarrow> jsval" where
  "own_property kvs k = (case map_of (rev kvs) k of None \<Rightarrow> JUndefined | Some v \<Rightarrow> v)"

text \<open>
  \<^verbatim>\<open>v.k\<close> for the data keys the components read (\<^verbatim>\<open>vocabulary\<close>, \<^verbatim>\<open>length\<close>,
  \<^verbatim>\<open>german\<close>, \<^verbatim>\<open>english\<close>, \<^verbatim>\<open>notes\<close>): a TypeError on \<^verbatim>\<open>undefined\<close> and
  \<^verbatim>\<open>null\<close>, the length of a string or an array, an own property of an object, and
  \<^verbatim>\<open>undefined\<close> otherwise. Only whether a length is zero is ever observed, so the unit
  a string's length is counted in does not matter. The same function models the
  destructuring of a parameter, \<^verbatim>\<open>function f({ k })\<close>, which reads \<^verbatim>\<open>k\<close> of the argument.
\<close>

fun get_prop :: "jsval \<Rightarrow> string \<Rightarrow> js_error + jsval" where
  "get_prop JUndefined k = Inl TypeError"
| "get_prop JNull k = Inl TypeError"
| "get_prop (JBool b) k = Inr JUndefined"
| "get_prop (JNum n) k = Inr JUndefined"
| "get_prop (JStr s) k = Inr (if k = ''length'' then JNum (int (length s)) else JUndefined)"
| "get_prop (JArr vs) k = Inr (if k = ''length'' then JNum (int (length vs)) else JUndefined)"
| "get_prop (JObj kvs) k = Inr (own_property kvs k)"

text \<open>Truthiness, as \<^verbatim>\<open>!v\<close> tests it.\<close>

fun to_boolean :: "jsval \<Rightarrow> bool" where
  "to_boolean JUndefined = False"
| "to_boolean JNull = False"
| "to_boolean (JBool b) = b"
| "to_boolean (JNum n) = (n \<noteq> 0)"
| "to_boolean (JStr s) = (s \<noteq> [])"
| "to_boolean (JArr vs) = True"
| "to_boolean (JObj kvs) = True"

section \<open>The render tree\<close>

text \<open>
  What a component returns: a tree of React elements. An element has its tag, its
  \<^verbatim>\<open>key\<close> when one is given (React keeps a key as a string), its other attributes in
  the order of the JSX, and its children. A child is literal JSX text, an expression in braces holding a JavaScript
  value (kept as the value: the component does not convert it), an array of nodes in
  braces, or an element.
\<close>

datatype node =
    Text string
  | Expr jsval
  | Items "node list"
  | Element (tag: string) (key: "string option") (attrs: "(string \<times> jsval) list")
      (children: "node list")

text \<open>
  React writes nothing for a child that is \<^verbatim>\<open>undefined\<close>, \<^verbatim>\<open>null\<close> or a boolean:
  the element around it stays empty.
\<close>

fun renders_nothing :: "node \<Rightarrow> bool" where
  "renders_nothing (Expr JUndefined) = True"
| "renders_nothing (Expr JNull) = True"
| "renders_nothing (Expr (JBool b)) = True"
| "renders_nothing n = False"

text \<open>
  The CSS module \<^verbatim>\<open>./styles.module.css\<close> is imported, not part of the component:
  \<open>styles k\<close> stands for \<^verbatim>\<open>styles.k\<close>, whatever class name the module gives.
\<close>

type_synonym css_module = "string \<Rightarrow> jsval"

section \<open>VocabTable\<close>

text \<open>The paragraph returned by the guard in lines 9 to 11.\<close>

definition no_data :: node where
  "no_data = Element ''p'' None [] [Text ''No vocabulary data available.'']"

text \<open>
  \<^verbatim>\<open>'' + index\<close>, the string React makes of a key: for an array index, its decimal
  numeral.
\<close>

function to_string :: "nat \<Rightarrow> string" where
  "to_string n =
     (if n < 10 then [''0123456789'' ! n]
      else to_string (n div 10) @ [''0123456789'' ! (n mod 10)])"
  by pat_completeness auto
termination
  by (relation "measure id") auto

declare to_string.simps [simp del]

text \<open>The row built by the callback of \<^verbatim>\<open>vocabulary.map\<close>, lines 25 to 29.\<close>

definition row_markup :: "css_module \<Rightarrow> nat \<Rightarrow> jsval \<Rightarrow> jsval \<Rightarrow> jsval \<Rightarrow> node" where
  "row_markup styles index german english notes =
     Element ''tr'' (Some (to_string index)) [(''className'', styles ''vocabRow'')]
       [Element ''td'' None [(''className'', styles ''germanWord'')] [Expr german],
        Element ''td'' None [(''className'', styles ''englishWord'')] [Expr english],
        Element ''td'' None [(''className'', styles ''notes'')] [Expr notes]]"

text \<open>
  The callback \<^verbatim>\<open>(entry, index) => ...\<close>: it reads the three fields of the entry, in
  this order, and each read raises on an entry that is \<^verbatim>\<open>null\<close> or \<^verbatim>\<open>undefined\<close>.
\<close>

definition vocab_row :: "css_module \<Rightarrow> jsval \<Rightarrow> nat \<Rightarrow> js_error + node" where
  "vocab_row styles entry index =
     (case get_prop entry ''german'' of
        Inl e \<Rightarrow> Inl e
      | Inr german \<Rightarrow>
          (case get_prop entry ''english'' of
             Inl e \<Rightarrow> Inl e
           | Inr english \<Rightarrow>
               (case get_prop entry ''notes'' of
                  Inl e \<Rightarrow> Inl e
                | Inr notes \<Rightarrow> Inr (row_markup styles index german english notes))))"

text \<open>
  \<^verbatim>\<open>Array.prototype.map\<close> with this callback: the entries from the left, each with its
  index; the first exception ends the call.
\<close>

fun map_entries :: "css_module \<Rightarrow> nat \<Rightarrow> jsval list \<Rightarrow> js_error + node list" where
  "map_entries styles index [] = Inr []"
| "map_entries styles index (entry # entries) =
     (case vocab_row styles entry index of
        Inl e \<Rightarrow> Inl e
      | Inr row \<Rightarrow>
          (case map_entries styles (Suc index) entries of
             Inl e \<Rightarrow> Inl e
           | Inr rows \<Rightarrow> Inr (row # rows)))"

text \<open>
  The method call \<^verbatim>\<open>vocabulary.map(...)\<close>: on anything but an array the property
  \<^verbatim>\<open>map\<close> is not a function, and the call raises.
\<close>

fun call_map :: "css_module \<Rightarrow> jsval \<Rightarrow> js_error + node list" where
  "call_map styles (JArr entries) = map_entries styles 0 entries"
| "call_map styles v = Inl TypeError"

text \<open>The markup around the rows, lines 14 to 33.\<close>

definition table_markup :: "css_module \<Rightarrow> node list \<Rightarrow> node" where
  "table_markup styles rows =
     Element ''div'' None [(''className'', styles ''vocabContainer'')]
       [Element ''table'' None [(''className'', styles ''vocabTable'')]
          [Element ''thead'' None []
             [Element ''tr'' None []
                [Element ''th'' None [(''className'', styles ''germanHeader'')] [Text ''German''],
                 Element ''th'' None [(''className'', styles ''englishHeader'')] [Text ''English''],
                 Element ''th'' None [(''className'', styles ''notesHeader'')] [Text ''Notes'']]],
           Element ''tbody'' None [] [Items rows]]]"

text \<open>
  \<^verbatim>\<open>vocabulary.length === 0\<close>: the length is read, then compared with the number 0
  without conversion.
\<close>

definition length_is_zero :: "jsval \<Rightarrow> js_error + bool" where
  "length_is_zero v = (case get_prop v ''length'' of Inl e \<Rightarrow> Inl e | Inr n \<Rightarrow> Inr (n = JNum 0))"

text \<open>
  The component, called with its props. \<^verbatim>\<open>||\<close> does not evaluate its right side when
  the left one is true.
\<close>

definition VocabTable :: "css_module \<Rightarrow> jsval \<Rightarrow> js_error + node" where
  "VocabTable styles props =
     (case get_prop props ''vocabulary'' of
        Inl e \<Rightarrow> Inl e
      | Inr vocabulary \<Rightarrow>
          if \<not> to_boolean vocabulary then Inr no_data
          else
            (case length_is_zero vocabulary of
               Inl e \<Rightarrow> Inl e
             | Inr True \<Rightarrow> Inr no_data
             | Inr False \<Rightarrow>
                 (case call_map styles vocabulary of
                    Inl e \<Rightarrow> Inl e
                  | Inr rows \<Rightarrow> Inr (table_markup styles rows))))"

section \<open>VocabWord\<close>

text \<open>Lines 40 to 47: the two props are read, nothing is tested.\<close>

definition VocabWord :: "css_module \<Rightarrow> jsval \<Rightarrow> js_error + node" where
  "VocabWord styles props =
     (case get_prop props ''german'' of
        Inl e \<Rightarrow> Inl e
      | Inr german \<Rightarrow>
          (case get_prop props ''english'' of
             Inl e \<Rightarrow> Inl e
           | Inr english \<Rightarrow>
               Inr (Element ''span'' None
                      [(''className'', styles ''vocabWord''), (''title'', english)]
                      [Expr german,
                       Element ''span'' None [(''className'', styles ''tooltip'')]
                         [Expr english]])))"

section \<open>Properties of the parts\<close>

text \<open>The key string of an index is its decimal numeral: reading the digits back gives the
  index, so two indices with the same key are the same index.\<close>

lemma digit_of_digit_char:
  assumes "d < 10"
  shows "of_char (''0123456789'' ! d) - 48 = (d::nat)"
proof -
  from assms have "d \<in> {0, 1, 2, 3, 4, 5, 6, 7, 8, 9}" by auto
  then show ?thesis by auto
qed

lemma read_to_string:
  "foldl (\<lambda>a c. 10 * a + (of_char c - 48)) (0::nat) (to_string n) = n"
proof (induction n rule: to_string.induct)
  case (1 n)
  show ?case
  proof (cases "n < 10")
    case True
    then show ?thesis
      by (simp add: to_string.simps [of n] digit_of_digit_char)
  next
    case False
    with "1.IH" have
      "foldl (\<lambda>a c. 10 * a + (of_char c - 48)) 0 (to_string (n div 10)) = n div 10"
      by simp
    with False show ?thesis
      by (simp add: to_string.simps [of n] digit_of_digit_char)
  qed
qed

lemma to_string_inject:
  assumes "to_string m = to_string n"
  shows "m = n"
proof -
  have "foldl (\<lambda>a c. 10 * a + (of_char c - 48)) (0::nat) (to_string m) =
        foldl (\<lambda>a c. 10 * a + (of_char c - 48)) (0::nat) (to_string n)"
    using assms by simp
  then show ?thesis by (simp only: read_to_string)
qed

text \<open>A key that an object does not have reads as \<^verbatim>\<open>undefined\<close>.\<close>

lemma own_property_absent: "k \<notin> fst ` set kvs \<Longrightarrow> own_property kvs k = JUndefined"
proof -
  assume "k \<notin> fst ` set kvs"
  then have "k \<notin> fst ` set (rev kvs)" by simp
  then have "map_of (rev kvs) k = None" unfolding map_of_eq_None_iff .
  then show ?thesis by (simp add: own_property_def)
qed

text \<open>The callback on a record: the three cells hold what the three keys read.\<close>

lemma vocab_row_record:
  "vocab_row styles (JObj r) i =
     Inr (row_markup styles i (own_property r ''german'') (own_property r ''english'')
            (own_property r ''notes''))"
  by (simp add: vocab_row_def)

text \<open>The callback succeeds on every entry that has properties at all, that is on every entry
  but \<^verbatim>\<open>null\<close> and \<^verbatim>\<open>undefined\<close>.\<close>

lemma vocab_row_defined:
  assumes "e \<noteq> JUndefined" and "e \<noteq> JNull"
  shows "\<exists>g en n. get_prop e ''german'' = Inr g \<and> get_prop e ''english'' = Inr en \<and>
           get_prop e ''notes'' = Inr n \<and>
           vocab_row styles e i = Inr (row_markup styles i g en n)"
  using assms by (cases e) (simp_all add: vocab_row_def)

text \<open>The callback looks at the three fields of the entry and at nothing else of it.\<close>

lemma vocab_row_fields_only:
  assumes "get_prop e ''german'' = get_prop e' ''german''"
    and "get_prop e ''english'' = get_prop e' ''english''"
    and "get_prop e ''notes'' = get_prop e' ''notes''"
  shows "vocab_row styles e i = vocab_row styles e' i"
  unfolding vocab_row_def assms by (rule refl)

text \<open>The mapping over records, written out: row \<open>j\<close> is built from entry \<open>j\<close>.\<close>

lemma map_entries_records:
  "map_entries styles i (map JObj rs) =
     Inr (map (\<lambda>(j, r). row_markup styles j (own_property r ''german'')
                 (own_property r ''english'') (own_property r ''notes''))
            (enumerate i rs))"
  by (induction rs arbitrary: i) (simp_all add: vocab_row_record)

text \<open>The mapping over entries that all have properties returns one row for each.\<close>

lemma map_entries_defined:
  assumes "\<forall>e\<in>set es. e \<noteq> JUndefined \<and> e \<noteq> JNull"
  shows "\<exists>rows. map_entries styles i es = Inr rows \<and> length rows = length es \<and>
           (\<forall>j<length es. \<exists>g en n.
              get_prop (es ! j) ''german'' = Inr g \<and> get_prop (es ! j) ''english'' = Inr en \<and>
              get_prop (es ! j) ''notes'' = Inr n \<and>
              rows ! j = row_markup styles (i + j) g en n)"
  using assms
proof (induction es arbitrary: i)
  case Nil
  show ?case by simp
next
  case (Cons e es)
  from Cons.prems have "e \<noteq> JUndefined" and "e \<noteq> JNull" by simp_all
  then obtain g en n where
    e: "get_prop e ''german'' = Inr g" "get_prop e ''english'' = Inr en"
       "get_prop e ''notes'' = Inr n"
       "vocab_row styles e i = Inr (row_markup styles i g en n)"
    using vocab_row_defined by blast
  from Cons.prems have "\<forall>x\<in>set es. x \<noteq> JUndefined \<and> x \<noteq> JNull" by simp
  from Cons.IH [OF this, of "Suc i"] obtain rows where
    rows: "map_entries styles (Suc i) es = Inr rows" "length rows = length es"
      "\<forall>j<length es. \<exists>g en n.
         get_prop (es ! j) ''german'' = Inr g \<and> get_prop (es ! j) ''english'' = Inr en \<and>
         get_prop (es ! j) ''notes'' = Inr n \<and>
         rows ! j = row_markup styles (Suc i + j) g en n"
    by blast
  have "map_entries styles i (e # es) = Inr (row_markup styles i g en n # rows)"
    using e(4) rows(1) by simp
  moreover have "length (row_markup styles i g en n # rows) = length (e # es)"
    using rows(2) by simp
  moreover have "\<forall>j<length (e # es). \<exists>g' en' n'.
         get_prop ((e # es) ! j) ''german'' = Inr g' \<and>
         get_prop ((e # es) ! j) ''english'' = Inr en' \<and>
         get_prop ((e # es) ! j) ''notes'' = Inr n' \<and>
         (row_markup styles i g en n # rows) ! j = row_markup styles (i + j) g' en' n'"
    using e(1,2,3) rows(3) by (simp add: All_less_Suc2)
  ultimately show ?case by blast
qed

text \<open>Entries that agree on the three fields, position by position, give the same rows or
  the same exception.\<close>

lemma map_entries_fields_only:
  assumes "length es = length es'"
    and "\<forall>j<length es.
           get_prop (es ! j) ''german'' = get_prop (es' ! j) ''german'' \<and>
           get_prop (es ! j) ''english'' = get_prop (es' ! j) ''english'' \<and>
           get_prop (es ! j) ''notes'' = get_prop (es' ! j) ''notes''"
  shows "map_entries styles i es = map_entries styles i es'"
  using assms
proof (induction es es' arbitrary: i rule: list_induct2)
  case Nil
  show ?case by simp
next
  case (Cons e es e' es')
  from Cons.prems have
    "get_prop e ''german'' = get_prop e' ''german''"
    "get_prop e ''english'' = get_prop e' ''english''"
    "get_prop e ''notes'' = get_prop e' ''notes''"
    by (auto simp: All_less_Suc2)
  then have row: "vocab_row styles e i = vocab_row styles e' i"
    by (rule vocab_row_fields_only)
  from Cons.prems have "\<forall>j<length es.
           get_prop (es ! j) ''german'' = get_prop (es' ! j) ''german'' \<and>
           get_prop (es ! j) ''english'' = get_prop (es' ! j) ''english'' \<and>
           get_prop (es ! j) ''notes'' = get_prop (es' ! j) ''notes''"
    by (simp add: All_less_Suc2)
  then have rest: "map_entries styles (Suc i) es = map_entries styles (Suc i) es'"
    by (rule Cons.IH)
  show ?case
    unfolding map_entries.simps row rest by (rule refl)
qed

text \<open>On a non-empty array the guard is passed and the rows are mapped.\<close>

lemma VocabTable_array:
  assumes "get_prop props ''vocabulary'' = Inr (JArr es)" and "es \<noteq> []"
  shows "VocabTable styles props =
           (case map_entries styles 0 es of
              Inl e \<Rightarrow> Inl e
            | Inr rows \<Rightarrow> Inr (table_markup styles rows))"
  using assms by (simp add: VocabTable_def length_is_zero_def)

text \<open>The whole output on a non-empty array of records.\<close>

lemma VocabTable_records:
  assumes "get_prop props ''vocabulary'' = Inr (JArr (map JObj rs))" and "rs \<noteq> []"
  shows "VocabTable styles props =
           Inr (table_markup styles
                  (map (\<lambda>(j, r). row_markup styles j (own_property r ''german'')
                          (own_property r ''english'') (own_property r ''notes''))
                     (enumerate 0 rs)))"
  using assms by (simp add: VocabTable_array map_entries_records)

text \<open>The component has two outputs only: the paragraph of the guard and the table.\<close>

lemma VocabTable_shapes:
  assumes "VocabTable styles props = Inr t"
  shows "t = no_data \<or> (\<exists>rows. t = table_markup styles rows)"
  using assms
  by (auto simp: VocabTable_def split: sum.splits if_splits bool.splits)

text \<open>An entry that is \<^verbatim>\<open>null\<close> is no record: reading its first field raises, and the
  exception leaves the component.\<close>

lemma VocabTable_null_entry:
  "VocabTable styles (JObj [(''vocabulary'', JArr [JNull])]) = Inl TypeError"
  by (simp add: VocabTable_def length_is_zero_def own_property_def vocab_row_def)

text \<open>A non-empty string passes the guard and has no \<^verbatim>\<open>map\<close> method.\<close>

lemma VocabTable_not_an_array:
  "VocabTable styles (JObj [(''vocabulary'', JStr ''Haus'')]) = Inl TypeError"
  by (simp add: VocabTable_def length_is_zero_def own_property_def)

text \<open>Of its props the component reads \<^verbatim>\<open>vocabulary\<close> and nothing else.\<close>

lemma VocabTable_reads_vocabulary_only:
  assumes "get_prop props ''vocabulary'' = get_prop props' ''vocabulary''"
  shows "VocabTable styles props = VocabTable styles props'"
  using assms by (simp add: VocabTable_def)

section \<open>The claims of the specification\<close>

text \<open>
  Claim C1. For a non-empty vocabulary list of \<open>N\<close> records the body of the returned table
  holds exactly \<open>N\<close> rows, in the order of the list, and the three cells of row \<open>i\<close>
  hold the values that \<^verbatim>\<open>german\<close>, \<^verbatim>\<open>english\<close> and \<^verbatim>\<open>notes\<close> read on entry
  \<open>i\<close>, unchanged. When the entry has no \<^verbatim>\<open>notes\<close> the third cell holds a child that
  renders nothing.
\<close>

theorem VocabTable_rows_in_order:
  assumes "get_prop props ''vocabulary'' = Inr (JArr (map JObj rs))" and "rs \<noteq> []"
  shows "\<exists>rows.
           VocabTable styles props =
             Inr (Element ''div'' None [(''className'', styles ''vocabContainer'')]
                    [Element ''table'' None [(''className'', styles ''vocabTable'')]
                       [Element ''thead'' None []
                          [Element ''tr'' None []
                             [Element ''th'' None [(''className'', styles ''germanHeader'')]
                                [Text ''German''],
                              Element ''th'' None [(''className'', styles ''englishHeader'')]
                                [Text ''English''],
                              Element ''th'' None [(''className'', styles ''notesHeader'')]
                                [Text ''Notes'']]],
                        Element ''tbody'' None [] [Items rows]]]) \<and>
           length rows = length rs \<and>
           (\<forall>i<length rs.
              tag (rows ! i) = ''tr'' \<and>
              children (rows ! i) =
                [Element ''td'' None [(''className'', styles ''germanWord'')]
                   [Expr (own_property (rs ! i) ''german'')],
                 Element ''td'' None [(''className'', styles ''englishWord'')]
                   [Expr (own_property (rs ! i) ''english'')],
                 Element ''td'' None [(''className'', styles ''notes'')]
                   [Expr (own_property (rs ! i) ''notes'')]] \<and>
              (''notes'' \<notin> fst ` set (rs ! i) \<longrightarrow>
                 (\<exists>c. children (children (rows ! i) ! 2) = [c] \<and> renders_nothing c)))"
proof -
  define rows where
    "rows = map (\<lambda>(j, r). row_markup styles j (own_property r ''german'')
                   (own_property r ''english'') (own_property r ''notes''))
              (enumerate 0 rs)"
  have out: "VocabTable styles props =
      Inr (Element ''div'' None [(''className'', styles ''vocabContainer'')]
             [Element ''table'' None [(''className'', styles ''vocabTable'')]
                [Element ''thead'' None []
                   [Element ''tr'' None []
                      [Element ''th'' None [(''className'', styles ''germanHeader'')]
                         [Text ''German''],
                       Element ''th'' None [(''className'', styles ''englishHeader'')]
                         [Text ''English''],
                       Element ''th'' None [(''className'', styles ''notesHeader'')]
                         [Text ''Notes'']]],
                 Element ''tbody'' None [] [Items rows]]])"
    unfolding rows_def using VocabTable_records [OF assms, of styles]
    by (simp only: table_markup_def)
  have len: "length rows = length rs"
    by (simp add: rows_def)
  have cells: "children (rows ! i) =
                [Element ''td'' None [(''className'', styles ''germanWord'')]
                   [Expr (own_property (rs ! i) ''german'')],
                 Element ''td'' None [(''className'', styles ''englishWord'')]
                   [Expr (own_property (rs ! i) ''english'')],
                 Element ''td'' None [(''className'', styles ''notes'')]
                   [Expr (own_property (rs ! i) ''notes'')]]"
    if "i < length rs" for i
    using that by (simp add: rows_def nth_enumerate_eq row_markup_def)
  have tags: "tag (rows ! i) = ''tr''" if "i < length rs" for i
    using that by (simp add: rows_def nth_enumerate_eq row_markup_def)
  have empty: "\<exists>c. children (children (rows ! i) ! 2) = [c] \<and> renders_nothing c"
    if "i < length rs" and "''notes'' \<notin> fst ` set (rs ! i)" for i
    using that by (simp add: cells own_property_absent)
  from out len tags cells empty show ?thesis by blast
qed

theorem VocabTable_rows_in_order_witness:
  "\<exists>rows.
     VocabTable JStr
       (JObj [(''vocabulary'',
          JArr [JObj [(''german'', JStr ''Haus''), (''english'', JStr ''house''),
                      (''notes'', JStr ''neuter'')],
                JObj [(''german'', JStr ''gehen''), (''english'', JStr ''to go'')]])]) =
       Inr (Element ''div'' None [(''className'', JStr ''vocabContainer'')]
              [Element ''table'' None [(''className'', JStr ''vocabTable'')]
                 [Element ''thead'' None []
                    [Element ''tr'' None []
                       [Element ''th'' None [(''className'', JStr ''germanHeader'')]
                          [Text ''German''],
                        Element ''th'' None [(''className'', JStr ''englishHeader'')]
                          [Text ''English''],
                        Element ''th'' None [(''className'', JStr ''notesHeader'')]
                          [Text ''Notes'']]],
                  Element ''tbody'' None [] [Items rows]]]) \<and>
     length rows = 2 \<and>
     map children (children (rows ! 0)) =
       [[Expr (JStr ''Haus'')], [Expr (JStr ''house'')], [Expr (JStr ''neuter'')]] \<and>
     map children (children (rows ! 1)) =
       [[Expr (JStr ''gehen'')], [Expr (JStr ''to go'')], [Expr JUndefined]]"
proof -
  let ?rs = "[[(''german'', JStr ''Haus''), (''english'', JStr ''house''),
               (''notes'', JStr ''neuter'')],
              [(''german'', JStr ''gehen''), (''english'', JStr ''to go'')]]"
  let ?props = "JObj [(''vocabulary'', JArr (map JObj ?rs))]"
  have list: "get_prop ?props ''vocabulary'' = Inr (JArr (map JObj ?rs))"
    by (simp add: own_property_def)
  have nonempty: "?rs \<noteq> []"
    by simp
  from VocabTable_rows_in_order [OF list nonempty, of JStr] obtain rows where
    out: "VocabTable JStr ?props =
      Inr (Element ''div'' None [(''className'', JStr ''vocabContainer'')]
             [Element ''table'' None [(''className'', JStr ''vocabTable'')]
                [Element ''thead'' None []
                   [Element ''tr'' None []
                      [Element ''th'' None [(''className'', JStr ''germanHeader'')]
                         [Text ''German''],
                       Element ''th'' None [(''className'', JStr ''englishHeader'')]
                         [Text ''English''],
                       Element ''th'' None [(''className'', JStr ''notesHeader'')]
                         [Text ''Notes'']]],
                 Element ''tbody'' None [] [Items rows]]])" and
    len: "length rows = length ?rs" and
    cells: "\<forall>i<length ?rs.
              tag (rows ! i) = ''tr'' \<and>
              children (rows ! i) =
                [Element ''td'' None [(''className'', JStr ''germanWord'')]
                   [Expr (own_property (?rs ! i) ''german'')],
                 Element ''td'' None [(''className'', JStr ''englishWord'')]
                   [Expr (own_property (?rs ! i) ''english'')],
                 Element ''td'' None [(''className'', JStr ''notes'')]
                   [Expr (own_property (?rs ! i) ''notes'')]] \<and>
              (''notes'' \<notin> fst ` set (?rs ! i) \<longrightarrow>
                 (\<exists>c. children (children (rows ! i) ! 2) = [c] \<and> renders_nothing c))"
    by blast
  have first: "map children (children (rows ! 0)) =
       [[Expr (JStr ''Haus'')], [Expr (JStr ''house'')], [Expr (JStr ''neuter'')]]"
    using cells [rule_format, of 0] by (simp add: own_property_def)
  have second: "map children (children (rows ! 1)) =
       [[Expr (JStr ''gehen'')], [Expr (JStr ''to go'')], [Expr JUndefined]]"
    using cells [rule_format, of 1] by (simp add: own_property_def)
  from out len first second show ?thesis
    by (intro exI [of _ rows]) simp
qed

text \<open>
  Claim C2. When the vocabulary is \<^verbatim>\<open>undefined\<close> (the prop was not given), \<^verbatim>\<open>null\<close> or an
  array without entries, the component returns the paragraph with the text
  "No vocabulary data available." and nothing else: one and the same output in the
  three cases, with no table in it.
\<close>

theorem VocabTable_no_data:
  assumes "get_prop props ''vocabulary'' = Inr v"
    and "v = JUndefined \<or> v = JNull \<or> v = JArr []"
  shows "VocabTable styles props =
           Inr (Element ''p'' None [] [Text ''No vocabulary data available.''])"
  using assms by (auto simp: VocabTable_def length_is_zero_def no_data_def)

theorem VocabTable_no_data_witness:
  "VocabTable JStr (JObj []) =
     Inr (Element ''p'' None [] [Text ''No vocabulary data available.'']) \<and>
   VocabTable JStr (JObj [(''vocabulary'', JNull)]) =
     Inr (Element ''p'' None [] [Text ''No vocabulary data available.'']) \<and>
   VocabTable JStr (JObj [(''vocabulary'', JArr [])]) =
     Inr (Element ''p'' None [] [Text ''No vocabulary data available.''])"
proof (intro conjI)
  show "VocabTable JStr (JObj []) =
     Inr (Element ''p'' None [] [Text ''No vocabulary data available.''])"
    by (rule VocabTable_no_data [where v = JUndefined]) (simp_all add: own_property_def)
  show "VocabTable JStr (JObj [(''vocabulary'', JNull)]) =
     Inr (Element ''p'' None [] [Text ''No vocabulary data available.''])"
    by (rule VocabTable_no_data [where v = JNull]) (simp_all add: own_property_def)
  show "VocabTable JStr (JObj [(''vocabulary'', JArr [])]) =
     Inr (Element ''p'' None [] [Text ''No vocabulary data available.''])"
    by (rule VocabTable_no_data [where v = "JArr []"]) (simp_all add: own_property_def)
qed

text \<open>
  Claim C3. For a non-empty vocabulary list the table starts with one header row of three
  cells, "German", "English" and "Notes" in this order, whatever the list holds.
\<close>

theorem VocabTable_header:
  assumes "get_prop props ''vocabulary'' = Inr (JArr (map JObj rs))" and "rs \<noteq> []"
  shows "\<exists>rows. VocabTable styles props =
           Inr (Element ''div'' None [(''className'', styles ''vocabContainer'')]
                  [Element ''table'' None [(''className'', styles ''vocabTable'')]
                     [Element ''thead'' None []
                        [Element ''tr'' None []
                           [Element ''th'' None [(''className'', styles ''germanHeader'')]
                              [Text ''German''],
                            Element ''th'' None [(''className'', styles ''englishHeader'')]
                              [Text ''English''],
                            Element ''th'' None [(''className'', styles ''notesHeader'')]
                              [Text ''Notes'']]],
                      Element ''tbody'' None [] [Items rows]]])"
  using VocabTable_records [OF assms, of styles] by (simp add: table_markup_def)

theorem VocabTable_header_witness:
  "\<exists>rows.
     VocabTable JStr
       (JObj [(''vocabulary'', JArr (map JObj [[(''german'', JStr ''Haus'')]]))]) =
       Inr (Element ''div'' None [(''className'', JStr ''vocabContainer'')]
              [Element ''table'' None [(''className'', JStr ''vocabTable'')]
                 [Element ''thead'' None []
                    [Element ''tr'' None []
                       [Element ''th'' None [(''className'', JStr ''germanHeader'')]
                          [Text ''German''],
                        Element ''th'' None [(''className'', JStr ''englishHeader'')]
                          [Text ''English''],
                        Element ''th'' None [(''className'', JStr ''notesHeader'')]
                          [Text ''Notes'']]],
                  Element ''tbody'' None [] [Items rows]]])"
  by (rule VocabTable_header [where rs = "[[(''german'', JStr ''Haus'')]]"])
    (simp_all add: own_property_def)

text \<open>
  Claim C4. For every pair of values given as \<^verbatim>\<open>german\<close> and \<^verbatim>\<open>english\<close>, the span
  returned by VocabWord shows \<^verbatim>\<open>german\<close> as its first child, and carries
  \<^verbatim>\<open>english\<close> twice: as its \<^verbatim>\<open>title\<close> attribute and as the content of the inner
  tooltip span.
\<close>

theorem VocabWord_pair:
  assumes "get_prop props ''german'' = Inr german"
    and "get_prop props ''english'' = Inr english"
  shows "VocabWord styles props =
           Inr (Element ''span'' None
                  [(''className'', styles ''vocabWord''), (''title'', english)]
                  [Expr german,
                   Element ''span'' None [(''className'', styles ''tooltip'')]
                     [Expr english]])"
  using assms by (simp add: VocabWord_def)

theorem VocabWord_pair_witness:
  "VocabWord JStr (JObj [(''german'', JStr ''Haus''), (''english'', JStr ''house'')]) =
     Inr (Element ''span'' None
            [(''className'', JStr ''vocabWord''), (''title'', JStr ''house'')]
            [Expr (JStr ''Haus''),
             Element ''span'' None [(''className'', JStr ''tooltip'')]
               [Expr (JStr ''house'')]])"
  by (rule VocabWord_pair) (simp_all add: own_property_def)

text \<open>
  Claim C5, as amended. VocabTable does not fail on a non-empty vocabulary list whose
  entries miss fields, as long as every entry is there, that is no entry is \<^verbatim>\<open>null\<close>
  or \<^verbatim>\<open>undefined\<close>: it returns the table, one row for each entry, each row with three
  cells that hold what the three reads return, and a cell whose read returns
  \<^verbatim>\<open>undefined\<close> holds a child that renders nothing. The one case distinction is the
  check for absent or empty data: a vocabulary that is \<^verbatim>\<open>undefined\<close>, \<^verbatim>\<open>null\<close> or
  an empty array gives the paragraph of the guard, every other such list gives the
  table, and no field is tested.
\<close>

theorem VocabTable_accepts_missing_fields:
  assumes "get_prop props ''vocabulary'' = Inr v"
    and "v = JUndefined \<or> v = JNull \<or> v = JArr es"
    and "\<forall>e\<in>set es. e \<noteq> JUndefined \<and> e \<noteq> JNull"
  shows "if v = JArr es \<and> es \<noteq> []
         then \<exists>rows.
           VocabTable styles props =
             Inr (Element ''div'' None [(''className'', styles ''vocabContainer'')]
                    [Element ''table'' None [(''className'', styles ''vocabTable'')]
                       [Element ''thead'' None []
                          [Element ''tr'' None []
                             [Element ''th'' None [(''className'', styles ''germanHeader'')]
                                [Text ''German''],
                              Element ''th'' None [(''className'', styles ''englishHeader'')]
                                [Text ''English''],
                              Element ''th'' None [(''className'', styles ''notesHeader'')]
                                [Text ''Notes'']]],
                        Element ''tbody'' None [] [Items rows]]]) \<and>
           length rows = length es \<and>
           (\<forall>i<length es. \<exists>g en n.
              get_prop (es ! i) ''german'' = Inr g \<and>
              get_prop (es ! i) ''english'' = Inr en \<and>
              get_prop (es ! i) ''notes'' = Inr n \<and>
              tag (rows ! i) = ''tr'' \<and>
              children (rows ! i) =
                [Element ''td'' None [(''className'', styles ''germanWord'')]
                   [Expr g],
                 Element ''td'' None [(''className'', styles ''englishWord'')]
                   [Expr en],
                 Element ''td'' None [(''className'', styles ''notes'')]
                   [Expr n]] \<and>
              (g = JUndefined \<longrightarrow> renders_nothing (Expr g)) \<and>
              (en = JUndefined \<longrightarrow> renders_nothing (Expr en)) \<and>
              (n = JUndefined \<longrightarrow> renders_nothing (Expr n)))
         else VocabTable styles props = Inr (Element ''p'' None [] [Text ''No vocabulary data available.''])"
proof (cases "v = JArr es \<and> es \<noteq> []")
  case False
  with assms(2) have "v = JUndefined \<or> v = JNull \<or> v = JArr []" by auto
  with assms(1) have "VocabTable styles props = Inr (Element ''p'' None [] [Text ''No vocabulary data available.''])"
    by (auto simp: VocabTable_def length_is_zero_def no_data_def)
  with False show ?thesis by simp
next
  case True
  then have v: "get_prop props ''vocabulary'' = Inr (JArr es)" and ne: "es \<noteq> []"
    using assms(1) by simp_all
  from map_entries_defined [OF assms(3), of styles 0] obtain rows where
    rows: "map_entries styles 0 es = Inr rows" "length rows = length es"
      "\<forall>j<length es. \<exists>g en n.
         get_prop (es ! j) ''german'' = Inr g \<and> get_prop (es ! j) ''english'' = Inr en \<and>
         get_prop (es ! j) ''notes'' = Inr n \<and>
         rows ! j = row_markup styles (0 + j) g en n"
    by blast
  have out: "VocabTable styles props =
      Inr (Element ''div'' None [(''className'', styles ''vocabContainer'')]
             [Element ''table'' None [(''className'', styles ''vocabTable'')]
                [Element ''thead'' None []
                   [Element ''tr'' None []
                      [Element ''th'' None [(''className'', styles ''germanHeader'')]
                         [Text ''German''],
                       Element ''th'' None [(''className'', styles ''englishHeader'')]
                         [Text ''English''],
                       Element ''th'' None [(''className'', styles ''notesHeader'')]
                         [Text ''Notes'']]],
                 Element ''tbody'' None [] [Items rows]]])"
    using VocabTable_array [OF v ne, of styles] rows(1) by (simp add: table_markup_def)
  have cells: "\<exists>g en n.
              get_prop (es ! i) ''german'' = Inr g \<and>
              get_prop (es ! i) ''english'' = Inr en \<and>
              get_prop (es ! i) ''notes'' = Inr n \<and>
              tag (rows ! i) = ''tr'' \<and>
              children (rows ! i) =
                [Element ''td'' None [(''className'', styles ''germanWord'')]
                   [Expr g],
                 Element ''td'' None [(''className'', styles ''englishWord'')]
                   [Expr en],
                 Element ''td'' None [(''className'', styles ''notes'')]
                   [Expr n]] \<and>
              (g = JUndefined \<longrightarrow> renders_nothing (Expr g)) \<and>
              (en = JUndefined \<longrightarrow> renders_nothing (Expr en)) \<and>
              (n = JUndefined \<longrightarrow> renders_nothing (Expr n))"
    if "i < length es" for i
  proof -
    from rows(3) that obtain g en n where
      f: "get_prop (es ! i) ''german'' = Inr g" "get_prop (es ! i) ''english'' = Inr en"
         "get_prop (es ! i) ''notes'' = Inr n" "rows ! i = row_markup styles (0 + i) g en n"
      by blast
    have t: "tag (rows ! i) = ''tr''"
      by (simp add: f(4) row_markup_def)
    have c: "children (rows ! i) =
                [Element ''td'' None [(''className'', styles ''germanWord'')]
                   [Expr g],
                 Element ''td'' None [(''className'', styles ''englishWord'')]
                   [Expr en],
                 Element ''td'' None [(''className'', styles ''notes'')]
                   [Expr n]]"
      by (simp add: f(4) row_markup_def)
    have u: "(g = JUndefined \<longrightarrow> renders_nothing (Expr g)) \<and>
             (en = JUndefined \<longrightarrow> renders_nothing (Expr en)) \<and>
             (n = JUndefined \<longrightarrow> renders_nothing (Expr n))"
      by simp
    from f(1,2,3) t c u show ?thesis by blast
  qed
  from out rows(2) cells have table: "\<exists>rows.
           VocabTable styles props =
             Inr (Element ''div'' None [(''className'', styles ''vocabContainer'')]
                    [Element ''table'' None [(''className'', styles ''vocabTable'')]
                       [Element ''thead'' None []
                          [Element ''tr'' None []
                             [Element ''th'' None [(''className'', styles ''germanHeader'')]
                                [Text ''German''],
                              Element ''th'' None [(''className'', styles ''englishHeader'')]
                                [Text ''English''],
                              Element ''th'' None [(''className'', styles ''notesHeader'')]
                                [Text ''Notes'']]],
                        Element ''tbody'' None [] [Items rows]]]) \<and>
           length rows = length es \<and>
           (\<forall>i<length es. \<exists>g en n.
              get_prop (es ! i) ''german'' = Inr g \<and>
              get_prop (es ! i) ''english'' = Inr en \<and>
              get_prop (es ! i) ''notes'' = Inr n \<and>
              tag (rows ! i) = ''tr'' \<and>
              children (rows ! i) =
                [Element ''td'' None [(''className'', styles ''germanWord'')]
                   [Expr g],
                 Element ''td'' None [(''className'', styles ''englishWord'')]
                   [Expr en],
                 Element ''td'' None [(''className'', styles ''notes'')]
                   [Expr n]] \<and>
              (g = JUndefined \<longrightarrow> renders_nothing (Expr g)) \<and>
              (en = JUndefined \<longrightarrow> renders_nothing (Expr en)) \<and>
              (n = JUndefined \<longrightarrow> renders_nothing (Expr n)))"
    by blast
  show ?thesis
    by (subst if_P [OF True]) (rule table)
qed

theorem VocabTable_accepts_missing_fields_witness:
  "(\<exists>rows.
      VocabTable JStr
        (JObj [(''vocabulary'',
           JArr [JObj [(''german'', JStr ''gehen''), (''english'', JStr ''to go'')],
                 JObj []])]) =
        Inr (Element ''div'' None [(''className'', JStr ''vocabContainer'')]
               [Element ''table'' None [(''className'', JStr ''vocabTable'')]
                  [Element ''thead'' None []
                     [Element ''tr'' None []
                        [Element ''th'' None [(''className'', JStr ''germanHeader'')]
                           [Text ''German''],
                         Element ''th'' None [(''className'', JStr ''englishHeader'')]
                           [Text ''English''],
                         Element ''th'' None [(''className'', JStr ''notesHeader'')]
                           [Text ''Notes'']]],
                   Element ''tbody'' None [] [Items rows]]]) \<and>
      length rows = 2 \<and>
      map children (children (rows ! 0)) =
        [[Expr (JStr ''gehen'')], [Expr (JStr ''to go'')], [Expr JUndefined]] \<and>
      map children (children (rows ! 1)) =
        [[Expr JUndefined], [Expr JUndefined], [Expr JUndefined]] \<and>
      renders_nothing (Expr JUndefined)) \<and>
   VocabTable JStr (JObj [(''vocabulary'', JArr [])]) =
     Inr (Element ''p'' None [] [Text ''No vocabulary data available.''])"
proof -
  let ?es = "[JObj [(''german'', JStr ''gehen''), (''english'', JStr ''to go'')], JObj []]"
  let ?props = "JObj [(''vocabulary'', JArr ?es)]"
  have list: "get_prop ?props ''vocabulary'' = Inr (JArr ?es)"
    by (simp add: own_property_def)
  have array: "JArr ?es = JUndefined \<or> JArr ?es = JNull \<or> JArr ?es = JArr ?es"
    by simp
  have entries: "\<forall>e\<in>set ?es. e \<noteq> JUndefined \<and> e \<noteq> JNull"
    by simp
  from VocabTable_accepts_missing_fields [OF list array entries, of JStr] obtain rows where
    out: "VocabTable JStr ?props =
      Inr (Element ''div'' None [(''className'', JStr ''vocabContainer'')]
             [Element ''table'' None [(''className'', JStr ''vocabTable'')]
                [Element ''thead'' None []
                   [Element ''tr'' None []
                      [Element ''th'' None [(''className'', JStr ''germanHeader'')]
                         [Text ''German''],
                       Element ''th'' None [(''className'', JStr ''englishHeader'')]
                         [Text ''English''],
                       Element ''th'' None [(''className'', JStr ''notesHeader'')]
                         [Text ''Notes'']]],
                 Element ''tbody'' None [] [Items rows]]])" and
    len: "length rows = length ?es" and
    cells: "\<forall>i<length ?es. \<exists>g en n.
              get_prop (?es ! i) ''german'' = Inr g \<and>
              get_prop (?es ! i) ''english'' = Inr en \<and>
              get_prop (?es ! i) ''notes'' = Inr n \<and>
              tag (rows ! i) = ''tr'' \<and>
              children (rows ! i) =
                [Element ''td'' None [(''className'', JStr ''germanWord'')]
                   [Expr g],
                 Element ''td'' None [(''className'', JStr ''englishWord'')]
                   [Expr en],
                 Element ''td'' None [(''className'', JStr ''notes'')]
                   [Expr n]] \<and>
              (g = JUndefined \<longrightarrow> renders_nothing (Expr g)) \<and>
              (en = JUndefined \<longrightarrow> renders_nothing (Expr en)) \<and>
              (n = JUndefined \<longrightarrow> renders_nothing (Expr n))"
    by auto
  have first: "map children (children (rows ! 0)) =
        [[Expr (JStr ''gehen'')], [Expr (JStr ''to go'')], [Expr JUndefined]]"
    using cells [rule_format, of 0] by (auto simp: own_property_def)
  have second: "map children (children (rows ! 1)) =
        [[Expr JUndefined], [Expr JUndefined], [Expr JUndefined]]"
    using cells [rule_format, of 1] by (auto simp: own_property_def)
  have table: "\<exists>rows.
      VocabTable JStr ?props =
        Inr (Element ''div'' None [(''className'', JStr ''vocabContainer'')]
               [Element ''table'' None [(''className'', JStr ''vocabTable'')]
                  [Element ''thead'' None []
                     [Element ''tr'' None []
                        [Element ''th'' None [(''className'', JStr ''germanHeader'')]
                           [Text ''German''],
                         Element ''th'' None [(''className'', JStr ''englishHeader'')]
                           [Text ''English''],
                         Element ''th'' None [(''className'', JStr ''notesHeader'')]
                           [Text ''Notes'']]],
                   Element ''tbody'' None [] [Items rows]]]) \<and>
      length rows = 2 \<and>
      map children (children (rows ! 0)) =
        [[Expr (JStr ''gehen'')], [Expr (JStr ''to go'')], [Expr JUndefined]] \<and>
      map children (children (rows ! 1)) =
        [[Expr JUndefined], [Expr JUndefined], [Expr JUndefined]] \<and>
      renders_nothing (Expr JUndefined)"
    using out len first second by (intro exI [of _ rows]) simp
  have none: "get_prop (JObj [(''vocabulary'', JArr [])]) ''vocabulary'' = Inr (JArr [])"
    by (simp add: own_property_def)
  have "JArr [] = JUndefined \<or> JArr [] = JNull \<or> JArr [] = JArr []"
    by simp
  from VocabTable_accepts_missing_fields [OF none this, of JStr]
  have "VocabTable JStr (JObj [(''vocabulary'', JArr [])]) = Inr (Element ''p'' None [] [Text ''No vocabulary data available.''])"
    by simp
  with table show ?thesis by simp
qed

text \<open>
  The claim as it was written, for every non-empty list, fails on a list that holds
  \<^verbatim>\<open>null\<close> in the place of an entry: the read of \<^verbatim>\<open>german\<close> raises.
\<close>

theorem VocabTable_null_entry_fails:
  "VocabTable JStr
     (JObj [(''vocabulary'',
        JArr [JObj [(''german'', JStr ''Haus''), (''english'', JStr ''house'')], JNull])]) =
   Inl TypeError"
  by (simp add: VocabTable_def length_is_zero_def own_property_def vocab_row_def)

text \<open>
  Claim C6. A vocabulary list with exactly one entry gives the table with its header row
  and one data row, built from that entry, and not the paragraph of the guard.
\<close>

theorem VocabTable_singleton:
  assumes "get_prop props ''vocabulary'' = Inr (JArr [JObj r])"
  shows "VocabTable styles props =
           Inr (Element ''div'' None [(''className'', styles ''vocabContainer'')]
                  [Element ''table'' None [(''className'', styles ''vocabTable'')]
                     [Element ''thead'' None []
                        [Element ''tr'' None []
                           [Element ''th'' None [(''className'', styles ''germanHeader'')]
                              [Text ''German''],
                            Element ''th'' None [(''className'', styles ''englishHeader'')]
                              [Text ''English''],
                            Element ''th'' None [(''className'', styles ''notesHeader'')]
                              [Text ''Notes'']]],
                      Element ''tbody'' None []
                        [Items
                           [Element ''tr'' (Some ''0'') [(''className'', styles ''vocabRow'')]
                              [Element ''td'' None [(''className'', styles ''germanWord'')]
                                 [Expr (own_property r ''german'')],
                               Element ''td'' None [(''className'', styles ''englishWord'')]
                                 [Expr (own_property r ''english'')],
                               Element ''td'' None [(''className'', styles ''notes'')]
                                 [Expr (own_property r ''notes'')]]]]]]) \<and>
         VocabTable styles props \<noteq> Inr (Element ''p'' None [] [Text ''No vocabulary data available.''])"
proof -
  have "get_prop props ''vocabulary'' = Inr (JArr (map JObj [r]))"
    using assms by simp
  from VocabTable_records [OF this, of styles]
  show ?thesis by (simp add: table_markup_def row_markup_def to_string.simps [of 0])
qed

theorem VocabTable_singleton_witness:
  "VocabTable JStr
     (JObj [(''vocabulary'',
        JArr [JObj [(''german'', JStr ''Haus''), (''english'', JStr ''house''),
                    (''notes'', JStr ''neuter'')]])]) =
     Inr (Element ''div'' None [(''className'', JStr ''vocabContainer'')]
            [Element ''table'' None [(''className'', JStr ''vocabTable'')]
               [Element ''thead'' None []
                  [Element ''tr'' None []
                     [Element ''th'' None [(''className'', JStr ''germanHeader'')]
                        [Text ''German''],
                      Element ''th'' None [(''className'', JStr ''englishHeader'')]
                        [Text ''English''],
                      Element ''th'' None [(''className'', JStr ''notesHeader'')]
                        [Text ''Notes'']]],
                Element ''tbody'' None []
                  [Items
                     [Element ''tr'' (Some ''0'') [(''className'', JStr ''vocabRow'')]
                        [Element ''td'' None [(''className'', JStr ''germanWord'')]
                           [Expr (JStr ''Haus'')],
                         Element ''td'' None [(''className'', JStr ''englishWord'')]
                           [Expr (JStr ''house'')],
                         Element ''td'' None [(''className'', JStr ''notes'')]
                           [Expr (JStr ''neuter'')]]]]]]) \<and>
   VocabTable JStr
     (JObj [(''vocabulary'',
        JArr [JObj [(''german'', JStr ''Haus''), (''english'', JStr ''house''),
                    (''notes'', JStr ''neuter'')]])]) \<noteq>
     Inr (Element ''p'' None [] [Text ''No vocabulary data available.''])"
proof -
  let ?r = "[(''german'', JStr ''Haus''), (''english'', JStr ''house''),
             (''notes'', JStr ''neuter'')]"
  have list: "get_prop (JObj [(''vocabulary'', JArr [JObj ?r])]) ''vocabulary'' =
                Inr (JArr [JObj ?r])"
    by (simp add: own_property_def)
  from VocabTable_singleton [OF list, of JStr]
  show ?thesis
    by (simp add: own_property_def)
qed

text \<open>
  Claim C8. For a non-empty vocabulary list, the \<^verbatim>\<open>key\<close> of row \<open>i\<close> of the table body
  is the position \<open>i\<close> of its entry in the list, in the string form React keeps keys
  in; rows at different positions carry different keys.
\<close>

theorem VocabTable_row_keys:
  assumes "get_prop props ''vocabulary'' = Inr (JArr (map JObj rs))" and "rs \<noteq> []"
  shows "\<exists>rows.
           VocabTable styles props =
             Inr (Element ''div'' None [(''className'', styles ''vocabContainer'')]
                    [Element ''table'' None [(''className'', styles ''vocabTable'')]
                       [Element ''thead'' None []
                          [Element ''tr'' None []
                             [Element ''th'' None [(''className'', styles ''germanHeader'')]
                                [Text ''German''],
                              Element ''th'' None [(''className'', styles ''englishHeader'')]
                                [Text ''English''],
                              Element ''th'' None [(''className'', styles ''notesHeader'')]
                                [Text ''Notes'']]],
                        Element ''tbody'' None [] [Items rows]]]) \<and>
           length rows = length rs \<and>
           (\<forall>i<length rs. tag (rows ! i) = ''tr'' \<and> key (rows ! i) = Some (to_string i)) \<and>
           (\<forall>i<length rs. \<forall>j<length rs. key (rows ! i) = key (rows ! j) \<longrightarrow> i = j)"
proof -
  define rows where
    "rows = map (\<lambda>(j, r). row_markup styles j (own_property r ''german'')
                   (own_property r ''english'') (own_property r ''notes''))
              (enumerate 0 rs)"
  have out: "VocabTable styles props =
      Inr (Element ''div'' None [(''className'', styles ''vocabContainer'')]
             [Element ''table'' None [(''className'', styles ''vocabTable'')]
                [Element ''thead'' None []
                   [Element ''tr'' None []
                      [Element ''th'' None [(''className'', styles ''germanHeader'')]
                         [Text ''German''],
                       Element ''th'' None [(''className'', styles ''englishHeader'')]
                         [Text ''English''],
                       Element ''th'' None [(''className'', styles ''notesHeader'')]
                         [Text ''Notes'']]],
                 Element ''tbody'' None [] [Items rows]]])"
    unfolding rows_def using VocabTable_records [OF assms, of styles]
    by (simp only: table_markup_def)
  have len: "length rows = length rs"
    by (simp add: rows_def)
  have keys: "tag (rows ! i) = ''tr'' \<and> key (rows ! i) = Some (to_string i)"
    if "i < length rs" for i
    using that by (simp add: rows_def nth_enumerate_eq row_markup_def)
  have distinct: "i = j"
    if "i < length rs" and "j < length rs" and "key (rows ! i) = key (rows ! j)" for i j
  proof -
    from that keys [of i] keys [of j] have "to_string i = to_string j" by simp
    then show ?thesis by (rule to_string_inject)
  qed
  from out len keys distinct show ?thesis by blast
qed

theorem VocabTable_row_keys_witness:
  "\<exists>rows.
     VocabTable JStr
       (JObj [(''vocabulary'',
          JArr [JObj [(''german'', JStr ''Haus'')], JObj [(''german'', JStr ''gehen'')]])]) =
       Inr (Element ''div'' None [(''className'', JStr ''vocabContainer'')]
              [Element ''table'' None [(''className'', JStr ''vocabTable'')]
                 [Element ''thead'' None []
                    [Element ''tr'' None []
                       [Element ''th'' None [(''className'', JStr ''germanHeader'')]
                          [Text ''German''],
                        Element ''th'' None [(''className'', JStr ''englishHeader'')]
                          [Text ''English''],
                        Element ''th'' None [(''className'', JStr ''notesHeader'')]
                          [Text ''Notes'']]],
                  Element ''tbody'' None [] [Items rows]]]) \<and>
     length rows = 2 \<and> key (rows ! 0) = Some ''0'' \<and> key (rows ! 1) = Some ''1''"
proof -
  let ?rs = "[[(''german'', JStr ''Haus'')], [(''german'', JStr ''gehen'')]]"
  let ?props = "JObj [(''vocabulary'', JArr (map JObj ?rs))]"
  have list: "get_prop ?props ''vocabulary'' = Inr (JArr (map JObj ?rs))"
    by (simp add: own_property_def)
  have nonempty: "?rs \<noteq> []"
    by simp
  from VocabTable_row_keys [OF list nonempty, of JStr] obtain rows where
    out: "VocabTable JStr ?props =
      Inr (Element ''div'' None [(''className'', JStr ''vocabContainer'')]
             [Element ''table'' None [(''className'', JStr ''vocabTable'')]
                [Element ''thead'' None []
                   [Element ''tr'' None []
                      [Element ''th'' None [(''className'', JStr ''germanHeader'')]
                         [Text ''German''],
                       Element ''th'' None [(''className'', JStr ''englishHeader'')]
                         [Text ''English''],
                       Element ''th'' None [(''className'', JStr ''notesHeader'')]
                         [Text ''Notes'']]],
                 Element ''tbody'' None [] [Items rows]]])" and
    len: "length rows = length ?rs" and
    keys: "\<forall>i<length ?rs. tag (rows ! i) = ''tr'' \<and> key (rows ! i) = Some (to_string i)"
    by blast
  have first: "key (rows ! 0) = Some ''0''"
    using keys [rule_format, of 0] by (simp add: to_string.simps [of 0])
  have second: "key (rows ! 1) = Some ''1''"
    using keys [rule_format, of 1] by (simp add: to_string.simps [of "Suc 0"])
  from out len first second show ?thesis
    by (intro exI [of _ rows]) simp
qed

text \<open>
  Claim C9. VocabWord returns its span for every props object. When \<^verbatim>\<open>german\<close> is not
  given the visible child renders nothing; when \<^verbatim>\<open>english\<close> is not given the
  \<^verbatim>\<open>title\<close> attribute is \<^verbatim>\<open>undefined\<close> and the child of the tooltip span renders
  nothing.
\<close>

theorem VocabWord_absent_fields:
  "\<exists>visible alt tip.
     VocabWord styles (JObj kvs) =
       Inr (Element ''span'' None [(''className'', styles ''vocabWord''), (''title'', alt)]
              [visible, Element ''span'' None [(''className'', styles ''tooltip'')] [tip]]) \<and>
     (''german'' \<notin> fst ` set kvs \<longrightarrow> renders_nothing visible) \<and>
     (''english'' \<notin> fst ` set kvs \<longrightarrow> alt = JUndefined \<and> renders_nothing tip)"
proof -
  have "VocabWord styles (JObj kvs) =
       Inr (Element ''span'' None
              [(''className'', styles ''vocabWord''), (''title'', own_property kvs ''english'')]
              [Expr (own_property kvs ''german''),
               Element ''span'' None [(''className'', styles ''tooltip'')]
                 [Expr (own_property kvs ''english'')]])"
    by (simp add: VocabWord_def)
  moreover have "''german'' \<notin> fst ` set kvs \<longrightarrow>
      renders_nothing (Expr (own_property kvs ''german''))"
    by (simp add: own_property_absent)
  moreover have "''english'' \<notin> fst ` set kvs \<longrightarrow>
      own_property kvs ''english'' = JUndefined \<and>
      renders_nothing (Expr (own_property kvs ''english''))"
    by (simp add: own_property_absent)
  ultimately show ?thesis by blast
qed

theorem VocabWord_absent_fields_witness:
  "\<exists>visible alt tip.
     VocabWord JStr (JObj []) =
       Inr (Element ''span'' None [(''className'', JStr ''vocabWord''), (''title'', alt)]
              [visible, Element ''span'' None [(''className'', JStr ''tooltip'')] [tip]]) \<and>
     renders_nothing visible \<and> alt = JUndefined \<and> renders_nothing tip"
  using VocabWord_absent_fields [of JStr "[]"] by simp

text \<open>
  Claim C10. Two vocabulary lists of the same length whose entries agree, position by
  position, on what \<^verbatim>\<open>german\<close>, \<^verbatim>\<open>english\<close> and \<^verbatim>\<open>notes\<close> read give the same
  output; other fields of the entries have no influence.
\<close>

theorem VocabTable_depends_on_three_fields:
  assumes "get_prop props ''vocabulary'' = Inr (JArr es)"
    and "get_prop props' ''vocabulary'' = Inr (JArr es')"
    and "length es = length es'"
    and "\<forall>i<length es.
           get_prop (es ! i) ''german'' = get_prop (es' ! i) ''german'' \<and>
           get_prop (es ! i) ''english'' = get_prop (es' ! i) ''english'' \<and>
           get_prop (es ! i) ''notes'' = get_prop (es' ! i) ''notes''"
  shows "VocabTable styles props = VocabTable styles props'"
proof -
  have rows: "map_entries styles 0 es = map_entries styles 0 es'"
    using assms(3,4) by (rule map_entries_fields_only)
  show ?thesis
  proof (cases "es = []")
    case True
    with assms(3) have "es' = []" by simp
    with True assms(1,2) show ?thesis
      by (simp add: VocabTable_def length_is_zero_def)
  next
    case False
    with assms(3) have "es' \<noteq> []" by auto
    from VocabTable_array [OF assms(1) False, of styles]
      VocabTable_array [OF assms(2) this, of styles] rows
    show ?thesis by (simp only:)
  qed
qed

theorem VocabTable_depends_on_three_fields_witness:
  "VocabTable JStr
     (JObj [(''vocabulary'',
        JArr [JObj [(''german'', JStr ''Haus''), (''english'', JStr ''house''),
                    (''id'', JNum 7)]])]) =
   VocabTable JStr
     (JObj [(''vocabulary'',
        JArr [JObj [(''english'', JStr ''house''), (''audio'', JStr ''haus.mp3''),
                    (''german'', JStr ''Haus'')]])])"
  by (rule VocabTable_depends_on_three_fields
        [where es = "[JObj [(''german'', JStr ''Haus''), (''english'', JStr ''house''),
                            (''id'', JNum 7)]]"
           and es' = "[JObj [(''english'', JStr ''house''), (''audio'', JStr ''haus.mp3''),
                             (''german'', JStr ''Haus'')]]"])
    (simp_all add: own_property_def)

end
